theory Spec2Isabelle
  imports Main "HOL-Library.AList" "HOL-Library.Word"
begin

section \<open>Values of the JavaScript runtime\<close>

text \<open>
  Request bodies and stored documents are JSON. An object is an association list of its
  properties in insertion order; reading a property is \<open>map_of\<close>, where \<open>None\<close> is
  JavaScript's \<open>undefined\<close>. Numbers are restricted to integers: \<open>JNum n\<close> is the number
  whose value is \<open>n\<close>. A timestamp is the number of its epoch milliseconds.
\<close>

datatype json =
    JNull
  | JBool bool
  | JNum int
  | JStr string
  | JArr "json list"
  | JObj "(string \<times> json) list"

type_synonym obj = "(string \<times> json) list"

type_synonym buffer = "8 word list"

text \<open>A thrown value, with the \<open>message\<close> the frame upload handler reads from it.\<close>

datatype js_error = JsError (message: string)

text \<open>JavaScript truthiness, as \<open>||\<close> and \<open>!\<close> apply it.\<close>

fun truthy :: "json option \<Rightarrow> bool" where
  "truthy None = False"
| "truthy (Some JNull) = False"
| "truthy (Some (JBool b)) = b"
| "truthy (Some (JNum n)) = (n \<noteq> 0)"
| "truthy (Some (JStr s)) = (s \<noteq> [])"
| "truthy (Some (JArr xs)) = True"
| "truthy (Some (JObj ps)) = True"

text \<open>\<open>a || b\<close> where \<open>a\<close> is a property read.\<close>

definition js_or :: "json option \<Rightarrow> json \<Rightarrow> json" where
  "js_or a b = (case a of None \<Rightarrow> b | Some v \<Rightarrow> if truthy (Some v) then v else b)"

text \<open>\<open>Object.assign(target, source)\<close>: the source's properties are assigned in order.\<close>

definition object_assign :: "obj \<Rightarrow> obj \<Rightarrow> obj" where
  "object_assign target source = fold (\<lambda>(k, v). AList.update k v) source target"

text \<open>
  \<open>String(v)\<close>, as the frame upload applies it to a field of the multipart body.

  A number below \<open>10^21\<close> in magnitude prints in decimal. From there on it prints in
  exponent form, which depends on the digits of the floating-point value: that text is
  taken from the environment (the argument \<open>ef\<close>).

  An array joins the texts of its elements with commas, a \<open>null\<close> element counting as the
  empty string.

  An object throws a \<open>TypeError\<close>. The objects of a multipart body are made without a
  prototype, so they have nothing that \<open>String\<close> could call: no \<open>toString\<close> and no
  \<open>valueOf\<close>. An array that has an object among its elements throws likewise, at the
  first one.
\<close>

definition digit_char :: "nat \<Rightarrow> char" where
  "digit_char d = ''0123456789'' ! (d mod 10)"

function decimal :: "nat \<Rightarrow> string" where
  "decimal n = (if n < 10 then [digit_char n] else decimal (n div 10) @ [digit_char (n mod 10)])"
  by pat_completeness auto
termination
  by (relation "measure (\<lambda>n. n)") auto

declare decimal.simps [simp del]

definition decimal_int :: "int \<Rightarrow> string" where
  "decimal_int i = (if i < 0 then CHR ''-'' # decimal (nat (- i)) else decimal (nat i))"

definition number_text :: "(int \<Rightarrow> string) \<Rightarrow> int \<Rightarrow> string" where
  "number_text ef i = (if \<bar>i\<bar> < 10 ^ 21 then decimal_int i else ef i)"

fun join_comma :: "string list \<Rightarrow> string" where
  "join_comma [] = []"
| "join_comma [s] = s"
| "join_comma (s # t # ss) = s @ '','' @ join_comma (t # ss)"

fun js_String :: "(int \<Rightarrow> string) \<Rightarrow> json \<Rightarrow> js_error + string"
  and js_String_elements :: "(int \<Rightarrow> string) \<Rightarrow> json list \<Rightarrow> js_error + string list" where
  "js_String ef JNull = Inr ''null''"
| "js_String ef (JBool b) = Inr (if b then ''true'' else ''false'')"
| "js_String ef (JNum n) = Inr (number_text ef n)"
| "js_String ef (JStr s) = Inr s"
| "js_String ef (JArr xs) =
     (case js_String_elements ef xs of Inl e \<Rightarrow> Inl e | Inr ss \<Rightarrow> Inr (join_comma ss))"
| "js_String ef (JObj ps) = Inl (JsError ''Cannot convert object to primitive value'')"
| "js_String_elements ef [] = Inr []"
| "js_String_elements ef (x # xs) =
     (case (if x = JNull then Inr [] else js_String ef x) of
        Inl e \<Rightarrow> Inl e
      | Inr s \<Rightarrow>
          (case js_String_elements ef xs of Inl e \<Rightarrow> Inl e | Inr ss \<Rightarrow> Inr (s # ss)))"

text \<open>\<open>String(x)\<close> of a property read: \<open>undefined\<close> prints as its name.\<close>

definition js_String_of :: "(int \<Rightarrow> string) \<Rightarrow> json option \<Rightarrow> js_error + string" where
  "js_String_of ef x = (case x of None \<Rightarrow> Inr ''undefined'' | Some v \<Rightarrow> js_String ef v)"

text \<open>\<open>s.padStart(n, c)\<close> for a one-character filler.\<close>

definition padStart :: "nat \<Rightarrow> char \<Rightarrow> string \<Rightarrow> string" where
  "padStart n c s = (if n \<le> length s then s else replicate (n - length s) c @ s)"

section \<open>The record store\<close>

text \<open>
  The \<open>Building\<close> model is declared in \<open>models/Building\<close>, which is not among the sources,
  and its queries run in the database. The collection is the list of its documents in
  natural order. Every database call may throw: the environment says which ones do.
\<close>

type_synonym collection = "obj list"

definition db_call :: "js_error option \<Rightarrow> 'a \<Rightarrow> js_error + 'a" where
  "db_call fault v = (case fault of Some e \<Rightarrow> Inl e | None \<Rightarrow> Inr v)"

text \<open>Modelled from the spec: the filter \<open>{ id }\<close> selects the Building with matching \<open>id\<close>.\<close>

definition matches_id :: "string \<Rightarrow> obj \<Rightarrow> bool" where
  "matches_id i d = (map_of d ''id'' = Some (JStr i))"

text \<open>Modelled from the spec: \<open>getById(id)\<close> is the Building with matching \<open>id\<close>, or not found.\<close>

definition find_one :: "string \<Rightarrow> collection \<Rightarrow> obj option" where
  "find_one i st = find (matches_id i) st"

fun replace_first :: "(obj \<Rightarrow> bool) \<Rightarrow> obj \<Rightarrow> collection \<Rightarrow> collection" where
  "replace_first P d' [] = []"
| "replace_first P d' (d # ds) = (if P d then d' # ds else d # replace_first P d' ds)"

fun delete_first :: "(obj \<Rightarrow> bool) \<Rightarrow> collection \<Rightarrow> collection" where
  "delete_first P [] = []"
| "delete_first P (d # ds) = (if P d then ds else d # delete_first P ds)"

text \<open>
  Modelled from the spec: \<open>findOneAndUpdate(filter, update, { new: true })\<close> applies the
  update operator to the first matching document and returns the updated document, or
  \<open>null\<close> when there is none. An operator the document does not admit makes the call throw.
\<close>

definition find_one_and_update ::
  "js_error option \<Rightarrow> string \<Rightarrow> (obj \<Rightarrow> js_error + obj) \<Rightarrow> collection
     \<Rightarrow> js_error + (obj option \<times> collection)" where
  "find_one_and_update fault i upd st =
     (case fault of
        Some e \<Rightarrow> Inl e
      | None \<Rightarrow>
          (case find_one i st of
             None \<Rightarrow> Inr (None, st)
           | Some d \<Rightarrow>
               (case upd d of
                  Inl e \<Rightarrow> Inl e
                | Inr d' \<Rightarrow> Inr (Some d', replace_first (matches_id i) d' st))))"

text \<open>Modelled from the spec: \<open>delete(id)\<close> removes the Building, or reports not found.\<close>

definition find_one_and_delete ::
  "js_error option \<Rightarrow> string \<Rightarrow> collection \<Rightarrow> js_error + (obj option \<times> collection)" where
  "find_one_and_delete fault i st =
     db_call fault (find_one i st, delete_first (matches_id i) st)"

text \<open>
  Modelled from the spec: \<open>update(id, partialData)\<close> merges \<open>partialData\<close> into the existing
  Building's top-level fields (the operator \<open>$set\<close>).
\<close>

definition mongo_set :: "obj \<Rightarrow> obj \<Rightarrow> js_error + obj" where
  "mongo_set partialData d = Inr (object_assign d partialData)"

text \<open>
  Modelled from the spec: \<open>addFloor\<close> appends the floor at the end of the \<open>floors\<close> sequence
  (the operator \<open>$push\<close>, which creates the array when the field is absent and refuses a
  field that is not an array).
\<close>

definition mongo_push_floor :: "json \<Rightarrow> obj \<Rightarrow> js_error + obj" where
  "mongo_push_floor f d =
     (case map_of d ''floors'' of
        None \<Rightarrow> Inr (AList.update ''floors'' (JArr [f]) d)
      | Some (JArr fs) \<Rightarrow> Inr (AList.update ''floors'' (JArr (fs @ [f])) d)
      | Some _ \<Rightarrow> Inl (JsError ''The field floors must be an array''))"

text \<open>The condition \<open>{ id: floorId }\<close> on an element of \<open>floors\<close>.\<close>

definition floor_matches :: "string \<Rightarrow> json \<Rightarrow> bool" where
  "floor_matches fid f = (case f of JObj ps \<Rightarrow> map_of ps ''id'' = Some (JStr fid) | _ \<Rightarrow> False)"

text \<open>
  Modelled from the spec: \<open>removeFloor\<close> removes all floor entries matching \<open>id\<close> from the
  \<open>floors\<close> sequence, with no effect if none matches (the operator \<open>$pull\<close>, which leaves a
  document without the field as it is and refuses a field that is not an array).
\<close>

definition mongo_pull_floor :: "string \<Rightarrow> obj \<Rightarrow> js_error + obj" where
  "mongo_pull_floor fid d =
     (case map_of d ''floors'' of
        None \<Rightarrow> Inr d
      | Some (JArr fs) \<Rightarrow>
          Inr (AList.update ''floors'' (JArr (filter (\<lambda>f. \<not> floor_matches fid f) fs)) d)
      | Some _ \<Rightarrow> Inl (JsError ''Cannot apply $pull to a non-array value''))"

text \<open>
  Modelled from the spec: \<open>listAll()\<close> is all Buildings ordered by \<open>createdAt\<close> descending;
  a document without a timestamp sorts last, equal timestamps keep their natural order.
\<close>

definition created_at :: "obj \<Rightarrow> int option" where
  "created_at d = (case map_of d ''createdAt'' of Some (JNum t) \<Rightarrow> Some t | _ \<Rightarrow> None)"

fun not_after :: "int option \<Rightarrow> int option \<Rightarrow> bool" where
  "not_after (Some a) (Some b) = (b \<le> a)"
| "not_after (Some a) None = True"
| "not_after None (Some b) = False"
| "not_after None None = True"

fun insert_desc :: "obj \<Rightarrow> collection \<Rightarrow> collection" where
  "insert_desc d [] = [d]"
| "insert_desc d (x # xs) =
     (if not_after (created_at d) (created_at x) then d # x # xs else x # insert_desc d xs)"

definition sort_created_desc :: "collection \<Rightarrow> collection" where
  "sort_created_desc st = foldr insert_desc st []"

section \<open>Requests, responses and the world\<close>

record request =
  params_id :: string
  params_floorId :: string
  body :: obj
  req_file :: "buffer option"

record response =
  status :: nat
  payload :: json

text \<open>The options object passed to \<open>cloudinary.uploader.upload_stream\<close>.\<close>

record upload_options =
  folder :: string
  public_id :: string
  resource_type :: string
  format :: "string option"
  overwrite :: bool

text \<open>
  What a handler can change: the collection, and the remote asset store, kept as the log of
  the uploads sent to it.
\<close>

record world =
  store :: collection
  uploads :: "(upload_options \<times> buffer) list"

text \<open>
  What a handler cannot control: the identifier \<open>uuidv4()\<close> returns, the defaults the
  Building schema assigns to absent fields, which database calls throw (by the position of
  the call in the handler), whether the upload callback receives an error or a result with
  its \<open>secure_url\<close>, and the exponent form in which the runtime prints a number from
  \<open>10^21\<close> on.
\<close>

record env =
  uuid :: string
  schema_defaults :: obj
  faults :: "js_error option list"
  cloud :: "upload_options \<Rightarrow> buffer \<Rightarrow> js_error + string"
  exponent_form :: "int \<Rightarrow> string"

definition fault_at :: "env \<Rightarrow> nat \<Rightarrow> js_error option" where
  "fault_at ev k = (if k < length (faults ev) then faults ev ! k else None)"

definition respond :: "nat \<Rightarrow> json \<Rightarrow> response" where
  "respond code j = \<lparr>status = code, payload = j\<rparr>"

definition message_body :: "string \<Rightarrow> json" where
  "message_body m = JObj [(''message'', JStr m)]"

definition failure_body :: "string \<Rightarrow> json" where
  "failure_body m = JObj [(''success'', JBool False), (''message'', JStr m)]"

text \<open>
  A handler is a \<open>try\<close> block, which ends with a response or with a thrown error, and a
  \<open>catch\<close> clause that answers 500. The effects made before the throw stay.
\<close>

definition catch_with ::
  "(js_error \<Rightarrow> json) \<Rightarrow> (js_error + response) \<times> world \<Rightarrow> response \<times> world" where
  "catch_with h r = (case r of (Inl e, w) \<Rightarrow> (respond 500 (h e), w) | (Inr res, w) \<Rightarrow> (res, w))"

text \<open>\<open>new Building(data)\<close>: the data with the schema's defaults for the absent fields.\<close>

definition new_Building :: "env \<Rightarrow> obj \<Rightarrow> obj" where
  "new_Building ev data = data @ filter (\<lambda>(k, v). map_of data k = None) (schema_defaults ev)"

section \<open>The route handlers\<close>

subsection \<open>\<open>GET /\<close>\<close>

definition list_buildings_try :: "env \<Rightarrow> request \<Rightarrow> world \<Rightarrow> (js_error + response) \<times> world" where
  "list_buildings_try ev req w =
     (case db_call (fault_at ev 0) (sort_created_desc (store w)) of
        Inl e \<Rightarrow> (Inl e, w)
      | Inr buildings \<Rightarrow> (Inr (respond 200 (JArr (map JObj buildings))), w))"

definition list_buildings :: "env \<Rightarrow> request \<Rightarrow> world \<Rightarrow> response \<times> world" where
  "list_buildings ev req w =
     catch_with (\<lambda>e. message_body ''Server error'') (list_buildings_try ev req w)"

subsection \<open>\<open>GET /:id\<close>\<close>

definition get_building_try :: "env \<Rightarrow> request \<Rightarrow> world \<Rightarrow> (js_error + response) \<times> world" where
  "get_building_try ev req w =
     (case db_call (fault_at ev 0) (find_one (params_id req) (store w)) of
        Inl e \<Rightarrow> (Inl e, w)
      | Inr None \<Rightarrow> (Inr (respond 404 (message_body ''Building not found'')), w)
      | Inr (Some building) \<Rightarrow> (Inr (respond 200 (JObj building)), w))"

definition get_building :: "env \<Rightarrow> request \<Rightarrow> world \<Rightarrow> response \<times> world" where
  "get_building ev req w =
     catch_with (\<lambda>e. message_body ''Server error'') (get_building_try ev req w)"

subsection \<open>\<open>POST /\<close>\<close>

definition create_building_try :: "env \<Rightarrow> request \<Rightarrow> world \<Rightarrow> (js_error + response) \<times> world" where
  "create_building_try ev req w =
     (let buildingData =
            AList.update ''id'' (js_or (map_of (body req) ''id'') (JStr (uuid ev))) (body req);
          building = new_Building ev buildingData
      in case db_call (fault_at ev 0) (store w @ [building]) of
           Inl e \<Rightarrow> (Inl e, w)
         | Inr st' \<Rightarrow> (Inr (respond 201 (JObj building)), w\<lparr>store := st'\<rparr>))"

definition create_building :: "env \<Rightarrow> request \<Rightarrow> world \<Rightarrow> response \<times> world" where
  "create_building ev req w =
     catch_with (\<lambda>e. message_body ''Server error'') (create_building_try ev req w)"

subsection \<open>\<open>PUT /:id\<close>\<close>

definition update_building_try :: "env \<Rightarrow> request \<Rightarrow> world \<Rightarrow> (js_error + response) \<times> world" where
  "update_building_try ev req w =
     (case find_one_and_update (fault_at ev 0) (params_id req) (mongo_set (body req)) (store w) of
        Inl e \<Rightarrow> (Inl e, w)
      | Inr (None, st') \<Rightarrow> (Inr (respond 404 (message_body ''Building not found'')), w)
      | Inr (Some building, st') \<Rightarrow> (Inr (respond 200 (JObj building)), w\<lparr>store := st'\<rparr>))"

definition update_building :: "env \<Rightarrow> request \<Rightarrow> world \<Rightarrow> response \<times> world" where
  "update_building ev req w =
     catch_with (\<lambda>e. message_body ''Server error'') (update_building_try ev req w)"

subsection \<open>\<open>DELETE /:id\<close>\<close>

definition delete_building_try :: "env \<Rightarrow> request \<Rightarrow> world \<Rightarrow> (js_error + response) \<times> world" where
  "delete_building_try ev req w =
     (case find_one_and_delete (fault_at ev 0) (params_id req) (store w) of
        Inl e \<Rightarrow> (Inl e, w)
      | Inr (None, st') \<Rightarrow> (Inr (respond 404 (message_body ''Building not found'')), w)
      | Inr (Some building, st') \<Rightarrow>
          (Inr (respond 200 (message_body ''Building deleted successfully'')), w\<lparr>store := st'\<rparr>))"

definition delete_building :: "env \<Rightarrow> request \<Rightarrow> world \<Rightarrow> response \<times> world" where
  "delete_building ev req w =
     catch_with (\<lambda>e. message_body ''Server error'') (delete_building_try ev req w)"

subsection \<open>\<open>POST /:id/floors\<close>\<close>

definition add_floor_try :: "env \<Rightarrow> request \<Rightarrow> world \<Rightarrow> (js_error + response) \<times> world" where
  "add_floor_try ev req w =
     (let floorData =
            AList.update ''id'' (js_or (map_of (body req) ''id'') (JStr (uuid ev))) (body req)
      in case find_one_and_update (fault_at ev 0) (params_id req)
                (mongo_push_floor (JObj floorData)) (store w) of
           Inl e \<Rightarrow> (Inl e, w)
         | Inr (None, st') \<Rightarrow> (Inr (respond 404 (message_body ''Building not found'')), w)
         | Inr (Some building, st') \<Rightarrow> (Inr (respond 201 (JObj building)), w\<lparr>store := st'\<rparr>))"

definition add_floor :: "env \<Rightarrow> request \<Rightarrow> world \<Rightarrow> response \<times> world" where
  "add_floor ev req w =
     catch_with (\<lambda>e. message_body ''Server error'') (add_floor_try ev req w)"

subsection \<open>\<open>PUT /:id/floors/:floorId\<close>\<close>

text \<open>
  \<open>floors.findIndex(f => f.id === floorId)\<close>: the index of the first element whose \<open>id\<close> is
  the string, \<open>None\<close> for -1. Reading \<open>id\<close> of \<open>null\<close> throws; any other value that is not
  an object has no \<open>id\<close>.
\<close>

fun findIndex_floor :: "string \<Rightarrow> json list \<Rightarrow> js_error + nat option" where
  "findIndex_floor fid [] = Inr None"
| "findIndex_floor fid (f # fs) =
     (if f = JNull then Inl (JsError ''Cannot read properties of null'')
      else if floor_matches fid f then Inr (Some 0)
      else (case findIndex_floor fid fs of
              Inl e \<Rightarrow> Inl e
            | Inr None \<Rightarrow> Inr None
            | Inr (Some i) \<Rightarrow> Inr (Some (Suc i))))"

text \<open>\<open>Object.assign(floor, body)\<close> on an element of the array.\<close>

definition assign_floor :: "json \<Rightarrow> obj \<Rightarrow> json" where
  "assign_floor f source = (case f of JObj ps \<Rightarrow> JObj (object_assign ps source) | _ \<Rightarrow> f)"

definition update_floor_try :: "env \<Rightarrow> request \<Rightarrow> world \<Rightarrow> (js_error + response) \<times> world" where
  "update_floor_try ev req w =
     (case db_call (fault_at ev 0) (find_one (params_id req) (store w)) of
        Inl e \<Rightarrow> (Inl e, w)
      | Inr None \<Rightarrow> (Inr (respond 404 (message_body ''Building not found'')), w)
      | Inr (Some building) \<Rightarrow>
          (case map_of building ''floors'' of
             Some (JArr floors) \<Rightarrow>
               (case findIndex_floor (params_floorId req) floors of
                  Inl e \<Rightarrow> (Inl e, w)
                | Inr None \<Rightarrow> (Inr (respond 404 (message_body ''Floor not found'')), w)
                | Inr (Some floorIndex) \<Rightarrow>
                    (let building' =
                           AList.update ''floors''
                             (JArr (floors[floorIndex :=
                                      assign_floor (floors ! floorIndex) (body req)]))
                             building
                     in case db_call (fault_at ev 1)
                               (replace_first (matches_id (params_id req)) building' (store w)) of
                          Inl e \<Rightarrow> (Inl e, w)
                        | Inr st' \<Rightarrow> (Inr (respond 200 (JObj building')), w\<lparr>store := st'\<rparr>)))
           | _ \<Rightarrow> (Inl (JsError ''building.floors.findIndex is not a function''), w)))"

definition update_floor :: "env \<Rightarrow> request \<Rightarrow> world \<Rightarrow> response \<times> world" where
  "update_floor ev req w =
     catch_with (\<lambda>e. message_body ''Server error'') (update_floor_try ev req w)"

subsection \<open>\<open>DELETE /:id/floors/:floorId\<close>\<close>

definition delete_floor_try :: "env \<Rightarrow> request \<Rightarrow> world \<Rightarrow> (js_error + response) \<times> world" where
  "delete_floor_try ev req w =
     (case find_one_and_update (fault_at ev 0) (params_id req)
             (mongo_pull_floor (params_floorId req)) (store w) of
        Inl e \<Rightarrow> (Inl e, w)
      | Inr (None, st') \<Rightarrow> (Inr (respond 404 (message_body ''Building not found'')), w)
      | Inr (Some building, st') \<Rightarrow> (Inr (respond 200 (JObj building)), w\<lparr>store := st'\<rparr>))"

definition delete_floor :: "env \<Rightarrow> request \<Rightarrow> world \<Rightarrow> response \<times> world" where
  "delete_floor ev req w =
     catch_with (\<lambda>e. message_body ''Server error'') (delete_floor_try ev req w)"

subsection \<open>\<open>POST /:id/upload-frame\<close>\<close>

text \<open>
  The promise around \<open>upload_stream\<close>: the buffer is sent with the options, and the callback
  rejects with the error or resolves with the result.
\<close>

definition upload_stream ::
  "env \<Rightarrow> upload_options \<Rightarrow> buffer \<Rightarrow> world \<Rightarrow> (js_error + string) \<times> world" where
  "upload_stream ev opts buf w = (cloud ev opts buf, w\<lparr>uploads := uploads w @ [(opts, buf)]\<rparr>)"

definition frame_options :: "string \<Rightarrow> string \<Rightarrow> upload_options" where
  "frame_options i paddedNumber =
     \<lparr>folder = ''buildings/'' @ i @ ''/frames'',
      public_id = ''frame_'' @ paddedNumber,
      resource_type = ''image'',
      format = Some ''webp'',
      overwrite = True\<rparr>"

definition upload_frame_try :: "env \<Rightarrow> request \<Rightarrow> world \<Rightarrow> (js_error + response) \<times> world" where
  "upload_frame_try ev req w =
     (let frameNumber = map_of (body req) ''frameNumber'' in
      case req_file req of
        None \<Rightarrow> (Inr (respond 400 (failure_body ''No frame file provided'')), w)
      | Some buf \<Rightarrow>
          if \<not> truthy frameNumber
          then (Inr (respond 400 (failure_body ''Frame number is required'')), w)
          else
            (case db_call (fault_at ev 0) (find_one (params_id req) (store w)) of
               Inl e \<Rightarrow> (Inl e, w)
             | Inr None \<Rightarrow> (Inr (respond 404 (failure_body ''Building not found'')), w)
             | Inr (Some building) \<Rightarrow>
                 (case js_String_of (exponent_form ev) frameNumber of
                    Inl e \<Rightarrow> (Inl e, w)
                  | Inr text \<Rightarrow>
                      (let paddedNumber = padStart 3 CHR ''0'' text
                       in case upload_stream ev
                                 (frame_options (params_id req) paddedNumber) buf w of
                            (Inl e, w') \<Rightarrow> (Inl e, w')
                          | (Inr url, w') \<Rightarrow>
                              (Inr (respond 200
                                      (JObj [(''success'', JBool True), (''url'', JStr url)])),
                               w')))))"

definition upload_frame :: "env \<Rightarrow> request \<Rightarrow> world \<Rightarrow> response \<times> world" where
  "upload_frame ev req w =
     catch_with
       (\<lambda>e. failure_body (if message e \<noteq> [] then message e else ''Failed to upload frame''))
       (upload_frame_try ev req w)"

subsection \<open>\<open>POST /:id/upload-model\<close>\<close>

definition model_options :: "string \<Rightarrow> upload_options" where
  "model_options i =
     \<lparr>folder = ''buildings/'' @ i @ ''/models'',
      public_id = ''model'',
      resource_type = ''raw'',
      format = None,
      overwrite = True\<rparr>"

definition upload_model_try :: "env \<Rightarrow> request \<Rightarrow> world \<Rightarrow> (js_error + response) \<times> world" where
  "upload_model_try ev req w =
     (case req_file req of
        None \<Rightarrow> (Inr (respond 400 (message_body ''No file uploaded'')), w)
      | Some buf \<Rightarrow>
          (case db_call (fault_at ev 0) (find_one (params_id req) (store w)) of
             Inl e \<Rightarrow> (Inl e, w)
           | Inr None \<Rightarrow> (Inr (respond 404 (message_body ''Building not found'')), w)
           | Inr (Some building) \<Rightarrow>
               (case upload_stream ev (model_options (params_id req)) buf w of
                  (Inl e, w') \<Rightarrow> (Inl e, w')
                | (Inr url, w') \<Rightarrow>
                    (case find_one_and_update (fault_at ev 1) (params_id req)
                            (mongo_set [(''modelPath'', JStr url)]) (store w') of
                       Inl e \<Rightarrow> (Inl e, w')
                     | Inr (updated, st') \<Rightarrow>
                         (Inr (respond 200 (JObj [(''url'', JStr url)])), w'\<lparr>store := st'\<rparr>)))))"

definition upload_model :: "env \<Rightarrow> request \<Rightarrow> world \<Rightarrow> response \<times> world" where
  "upload_model ev req w =
     catch_with (\<lambda>e. message_body ''Failed to upload model'') (upload_model_try ev req w)"

subsection \<open>The router\<close>

datatype route =
    ListBuildings
  | GetBuilding
  | CreateBuilding
  | UpdateBuilding
  | DeleteBuilding
  | AddFloor
  | UpdateFloor
  | DeleteFloor
  | UploadFrame
  | UploadModel


fun handler :: "route \<Rightarrow> env \<Rightarrow> request \<Rightarrow> world \<Rightarrow> response \<times> world" where
  "handler ListBuildings = list_buildings"
| "handler GetBuilding = get_building"
| "handler CreateBuilding = create_building"
| "handler UpdateBuilding = update_building"
| "handler DeleteBuilding = delete_building"
| "handler AddFloor = add_floor"
| "handler UpdateFloor = update_floor"
| "handler DeleteFloor = delete_floor"
| "handler UploadFrame = upload_frame"
| "handler UploadModel = upload_model"

section \<open>Sequences of requests\<close>

text \<open>The world after a sequence of requests, each served in turn.\<close>

fun run :: "(route \<times> env \<times> request) list \<Rightarrow> world \<Rightarrow> world" where
  "run [] w = w"
| "run ((r, ev, req) # ops) w = run ops (snd (handler r ev req w))"

definition building_id :: "obj \<Rightarrow> json option" where
  "building_id d = map_of d ''id''"

text \<open>
  A stored Building is followed by its position in the collection. Only a delete that
  reaches the database moves the documents: the one it removes is gone, the later ones
  move up by one.
\<close>

fun after_delete :: "(obj \<Rightarrow> bool) \<Rightarrow> collection \<Rightarrow> nat \<Rightarrow> nat option" where
  "after_delete P [] k = Some k"
| "after_delete P (d # ds) k =
     (if P d then (case k of 0 \<Rightarrow> None | Suc j \<Rightarrow> Some j)
      else (case k of 0 \<Rightarrow> Some 0 | Suc j \<Rightarrow> map_option Suc (after_delete P ds j)))"

definition position_after :: "route \<times> env \<times> request \<Rightarrow> world \<Rightarrow> nat \<Rightarrow> nat option" where
  "position_after op w k = (case op of (r, ev, req) \<Rightarrow>
     if r = DeleteBuilding \<and> fault_at ev 0 = None
     then after_delete (matches_id (params_id req)) (store w) k
     else Some k)"

fun track :: "(route \<times> env \<times> request) list \<Rightarrow> world \<Rightarrow> nat \<Rightarrow> nat option" where
  "track [] w k = Some k"
| "track ((r, ev, req) # ops) w k =
     (case position_after (r, ev, req) w k of
        None \<Rightarrow> None
      | Some k' \<Rightarrow> track ops (snd (handler r ev req w)) k')"

text \<open>
  A request that cannot change an id: any request but a generic update whose body has an
  \<open>id\<close> other than the one in the path.
\<close>

definition id_safe :: "route \<times> env \<times> request \<Rightarrow> bool" where
  "id_safe op = (case op of (r, ev, req) \<Rightarrow>
     r = UpdateBuilding \<longrightarrow> (\<forall>v. (''id'', v) \<in> set (body req) \<longrightarrow> v = JStr (params_id req)))"

section \<open>Frame numbers\<close>

text \<open>
  A frame number as a client sends it: a text or, where the body carries numbers, a
  number that is a safe integer (at most \<open>2^53 - 1\<close> in magnitude).
\<close>

definition text_or_safe_integer :: "json \<Rightarrow> bool" where
  "text_or_safe_integer v =
     (case v of JStr s \<Rightarrow> True | JNum i \<Rightarrow> \<bar>i\<bar> \<le> 9007199254740991 | _ \<Rightarrow> False)"

section \<open>Concrete collaborators\<close>

text \<open>An upload channel that always resolves with the same URL, and one that always rejects.\<close>

definition cloud_resolves :: "string \<Rightarrow> upload_options \<Rightarrow> buffer \<Rightarrow> js_error + string" where
  "cloud_resolves url opts buf = Inr url"

definition cloud_rejects :: "js_error \<Rightarrow> upload_options \<Rightarrow> buffer \<Rightarrow> js_error + string" where
  "cloud_rejects e opts buf = Inl e"

text \<open>
  An exponent form printer that knows the text of \<open>10^21\<close> only; no request below has a
  number of that size.
\<close>

definition exponent_of_1e21 :: "int \<Rightarrow> string" where
  "exponent_of_1e21 i = ''1e+21''"

text \<open>An environment in which nothing fails, and a request with a JSON body and no file.\<close>

definition quiet_env :: env where
  "quiet_env =
     \<lparr>uuid = ''1b9d6bcd-bbfd-4b2d-9b5d-ab8dfbbd4bed'', schema_defaults = [(''floors'', JArr [])],
      faults = [], cloud = cloud_resolves ''https://cdn.example/asset'',
      exponent_form = exponent_of_1e21\<rparr>"

definition json_request :: "string \<Rightarrow> string \<Rightarrow> obj \<Rightarrow> request" where
  "json_request i fid b = \<lparr>params_id = i, params_floorId = fid, body = b, req_file = None\<rparr>"

definition multipart_request :: "string \<Rightarrow> obj \<Rightarrow> buffer \<Rightarrow> request" where
  "multipart_request i b buf = \<lparr>params_id = i, params_floorId = [], body = b, req_file = Some buf\<rparr>"

section \<open>Basic facts\<close>

lemma catch_with_Inl [simp]: "catch_with h (Inl e, w) = (respond 500 (h e), w)"
  by (simp add: catch_with_def)

lemma catch_with_Inr [simp]: "catch_with h (Inr r, w) = (r, w)"
  by (simp add: catch_with_def)

lemma db_call_simps [simp]:
  "db_call None v = Inr v" "db_call (Some e) v = Inl e"
  by (simp_all add: db_call_def)

lemma map_of_new_Building:
  "map_of data k = Some v \<Longrightarrow> map_of (new_Building ev data) k = Some v"
  by (simp add: new_Building_def map_add_Some_iff)

lemma js_or_Some: "js_or (Some v) b = (if truthy (Some v) then v else b)"
  by (simp add: js_or_def)



lemma status_respond [simp]: "status (respond c j) = c"
  by (simp add: respond_def)

lemma payload_respond [simp]: "payload (respond c j) = j"
  by (simp add: respond_def)


lemma snd_catch_with [simp]: "snd (catch_with h p) = snd p"
  by (cases p) (simp add: catch_with_def split: sum.splits)

section \<open>Facts about documents and the collection\<close>

lemma find_one_matches: "find_one i st = Some d \<Longrightarrow> matches_id i d"
  by (auto simp: find_one_def find_Some_iff)

lemma length_replace_first [simp]: "length (replace_first P d' st) = length st"
  by (induction st) auto

lemma map_replace_first:
  "(\<And>d. d \<in> set st \<Longrightarrow> P d \<Longrightarrow> g d' = g d) \<Longrightarrow> map g (replace_first P d' st) = map g st"
  by (induction st) auto

lemma replace_first_found: "find P st = Some d \<Longrightarrow> replace_first P d st = st"
  by (induction st) (auto split: if_splits)

lemma find_replace_first:
  "P d' \<Longrightarrow> find P st = Some d \<Longrightarrow> find P (replace_first P d' st) = Some d'"
  by (induction st) (auto split: if_splits)

lemma map_of_object_assign:
  "(\<And>v. (k, v) \<in> set source \<Longrightarrow> map_of target k = Some v) \<Longrightarrow>
   map_of (object_assign target source) k = map_of target k"
  unfolding object_assign_def
proof (induction source arbitrary: target)
  case Nil
  then show ?case by simp
next
  case (Cons p ps)
  obtain a x where p: "p = (a, x)" by (cases p)
  have "map_of (AList.update a x target) k = map_of target k"
    using Cons.prems [of x] p by (auto simp: AList.update_conv')
  moreover have "map_of (fold (\<lambda>(k, v). AList.update k v) ps (AList.update a x target)) k
      = map_of (AList.update a x target) k"
    using Cons.prems calculation by (intro Cons.IH) auto
  ultimately show ?case by (simp add: p)
qed

lemma map_of_object_assign_other:
  "k \<notin> fst ` set source \<Longrightarrow> map_of (object_assign target source) k = map_of target k"
  by (rule map_of_object_assign) force

lemma object_assign_single [simp]: "object_assign target [(k, v)] = AList.update k v target"
  by (simp add: object_assign_def)

lemma find_one_and_update_ids:
  assumes "find_one_and_update fault i upd st = Inr (r, st')"
    and "\<And>d d'. matches_id i d \<Longrightarrow> upd d = Inr d' \<Longrightarrow> building_id d' = building_id d"
  shows "map building_id st' = map building_id st"
proof (cases "find_one i st")
  case None
  with assms(1) show ?thesis
    by (auto simp: find_one_and_update_def split: option.splits)
next
  case (Some d)
  then obtain d' where d': "upd d = Inr d'" "st' = replace_first (matches_id i) d' st"
    using assms(1) by (auto simp: find_one_and_update_def split: option.splits sum.splits)
  have "building_id d' = building_id d"
    using assms(2) find_one_matches [OF Some] d'(1) by blast
  then have "\<And>x. matches_id i x \<Longrightarrow> building_id d' = building_id x"
    using find_one_matches [OF Some] by (simp add: matches_id_def building_id_def)
  then show ?thesis
    unfolding d'(2) by (intro map_replace_first) 
qed

lemma mongo_push_floor_id: "mongo_push_floor f d = Inr d' \<Longrightarrow> building_id d' = building_id d"
  by (auto simp: mongo_push_floor_def building_id_def AList.update_conv'
      split: option.splits json.splits)

lemma mongo_pull_floor_id: "mongo_pull_floor fid d = Inr d' \<Longrightarrow> building_id d' = building_id d"
  by (auto simp: mongo_pull_floor_def building_id_def AList.update_conv'
      split: option.splits json.splits)

lemma mongo_set_id:
  "(\<And>v. (''id'', v) \<in> set src \<Longrightarrow> building_id d = Some v) \<Longrightarrow>
   mongo_set src d = Inr d' \<Longrightarrow> building_id d' = building_id d"
  by (auto simp: mongo_set_def building_id_def intro: map_of_object_assign)

lemma matches_id_update_other:
  "k \<noteq> ''id'' \<Longrightarrow> matches_id i (AList.update k v d) = matches_id i d"
  by (simp add: matches_id_def AList.update_conv')

lemma find_one_replace_first:
  "matches_id i d' \<Longrightarrow> find_one i st = Some d \<Longrightarrow>
   find_one i (replace_first (matches_id i) d' st) = Some d'"
  unfolding find_one_def by (rule find_replace_first)

lemma replace_first_twice [simp]:
  "P d' \<Longrightarrow> replace_first P d'' (replace_first P d' st) = replace_first P d'' st"
  by (induction st) auto

lemma replace_first_as_update:
  "find P st = Some d \<Longrightarrow> \<exists>n<length st. st ! n = d \<and> replace_first P d' st = st[n := d']"
proof (induction st)
  case Nil
  then show ?case by simp
next
  case (Cons x xs)
  show ?case
  proof (cases "P x")
    case True
    with Cons.prems show ?thesis by auto
  next
    case False
    with Cons obtain n where "n < length xs" "xs ! n = d" "replace_first P d' xs = xs[n := d']"
      by auto
    with False show ?thesis by (intro exI [of _ "Suc n"]) simp
  qed
qed

section \<open>Creating a building\<close>

text \<open>
  C1, as the code has it. When the body of a create request has an \<open>id\<close> and the save
  succeeds, the answer is 201 with the stored Building, which is appended to the
  collection. Its \<open>id\<close> is the supplied one when that is truthy (not \<open>null\<close>, \<open>false\<close>, 0
  or the empty string), so every non-empty string id is kept; for a falsy id, the empty
  string among them, the generated identifier is taken instead.
\<close>

theorem create_building_keeps_truthy_id:
  assumes "map_of (body req) ''id'' = Some v" and "fault_at ev 0 = None"
  shows "\<exists>b. create_building ev req w = (respond 201 (JObj b), w\<lparr>store := store w @ [b]\<rparr>)
           \<and> map_of b ''id'' = Some (if truthy (Some v) then v else JStr (uuid ev))"
proof -
  define b where
    "b = new_Building ev
           (AList.update ''id'' (if truthy (Some v) then v else JStr (uuid ev)) (body req))"
  have "create_building ev req w = (respond 201 (JObj b), w\<lparr>store := store w @ [b]\<rparr>)"
    using assms
    by (simp add: create_building_def create_building_try_def Let_def js_or_Some b_def)
  moreover have "map_of b ''id'' = Some (if truthy (Some v) then v else JStr (uuid ev))"
    unfolding b_def by (rule map_of_new_Building) (simp add: AList.update_conv')
  ultimately show ?thesis by blast
qed

text \<open>A request with the id \<open>tower-a\<close>: the Building is stored and returned under it.\<close>

theorem create_building_keeps_truthy_id_witness:
  "create_building
      \<lparr>uuid = ''1b9d6bcd-bbfd-4b2d-9b5d-ab8dfbbd4bed'', schema_defaults = [(''floors'', JArr [])],
       faults = [], cloud = cloud_resolves ''https://cdn.example/a'',
       exponent_form = exponent_of_1e21\<rparr>
      \<lparr>params_id = [], params_floorId = [],
       body = [(''name'', JStr ''Tower A''), (''id'', JStr ''tower-a'')], req_file = None\<rparr>
      \<lparr>store = [], uploads = []\<rparr>
    = (respond 201
         (JObj [(''name'', JStr ''Tower A''), (''id'', JStr ''tower-a''), (''floors'', JArr [])]),
       \<lparr>store = [[(''name'', JStr ''Tower A''), (''id'', JStr ''tower-a''), (''floors'', JArr [])]],
        uploads = []\<rparr>)"
  using create_building_keeps_truthy_id [of
      "\<lparr>params_id = [], params_floorId = [],
        body = [(''name'', JStr ''Tower A''), (''id'', JStr ''tower-a'')], req_file = None\<rparr>"
      "JStr ''tower-a''"
      "\<lparr>uuid = ''1b9d6bcd-bbfd-4b2d-9b5d-ab8dfbbd4bed'', schema_defaults = [(''floors'', JArr [])],
        faults = [], cloud = cloud_resolves ''https://cdn.example/a'',
       exponent_form = exponent_of_1e21\<rparr>"
      "\<lparr>store = [], uploads = []\<rparr>"]
  by (simp add: create_building_def create_building_try_def Let_def js_or_Some
      new_Building_def fault_at_def)

text \<open>
  A request whose id is the empty string: the Building is stored and returned under the
  generated identifier, not under the empty string.
\<close>

theorem create_building_empty_id_counterexample:
  "create_building
      \<lparr>uuid = ''1b9d6bcd-bbfd-4b2d-9b5d-ab8dfbbd4bed'', schema_defaults = [],
       faults = [], cloud = cloud_resolves ''https://cdn.example/a'',
       exponent_form = exponent_of_1e21\<rparr>
      \<lparr>params_id = [], params_floorId = [], body = [(''id'', JStr [])], req_file = None\<rparr>
      \<lparr>store = [], uploads = []\<rparr>
    = (respond 201 (JObj [(''id'', JStr ''1b9d6bcd-bbfd-4b2d-9b5d-ab8dfbbd4bed'')]),
       \<lparr>store = [[(''id'', JStr ''1b9d6bcd-bbfd-4b2d-9b5d-ab8dfbbd4bed'')]], uploads = []\<rparr>)"
  by (simp add: create_building_def create_building_try_def Let_def js_or_Some
      new_Building_def fault_at_def)

section \<open>The id of a stored building\<close>

lemma store_list_buildings [simp]: "store (snd (list_buildings ev req w)) = store w"
  by (simp add: list_buildings_def list_buildings_try_def split: sum.splits)

lemma store_get_building [simp]: "store (snd (get_building ev req w)) = store w"
  by (simp add: get_building_def get_building_try_def split: sum.splits option.splits)

lemma store_upload_frame [simp]: "store (snd (upload_frame ev req w)) = store w"
  by (simp add: upload_frame_def upload_frame_try_def upload_stream_def Let_def
      split: sum.splits option.splits)

lemma store_create_building:
  "\<exists>ds. store (snd (create_building ev req w)) = store w @ ds"
  by (cases "fault_at ev 0") (simp_all add: create_building_def create_building_try_def Let_def)

lemma ids_update_building:
  assumes "\<And>v. (''id'', v) \<in> set (body req) \<Longrightarrow> v = JStr (params_id req)"
  shows "map building_id (store (snd (update_building ev req w))) = map building_id (store w)"
proof (cases "find_one_and_update (fault_at ev 0) (params_id req) (mongo_set (body req)) (store w)")
  case (Inl e)
  then show ?thesis by (simp add: update_building_def update_building_try_def)
next
  case (Inr p)
  obtain r st' where p: "p = (r, st')" by (cases p)
  have "map building_id st' = map building_id (store w)"
  proof (rule find_one_and_update_ids [OF Inr [unfolded p]])
    fix d d'
    assume m: "matches_id (params_id req) d" and u: "mongo_set (body req) d = Inr d'"
    show "building_id d' = building_id d"
    proof (rule mongo_set_id [OF _ u])
      fix v
      assume "(''id'', v) \<in> set (body req)"
      then show "building_id d = Some v"
        using assms m by (simp add: matches_id_def building_id_def)
    qed
  qed
  then show ?thesis
    using Inr p by (cases r) (simp_all add: update_building_def update_building_try_def)
qed

lemma ids_add_floor:
  "map building_id (store (snd (add_floor ev req w))) = map building_id (store w)"
proof -
  let ?f = "JObj (AList.update ''id'' (js_or (map_of (body req) ''id'') (JStr (uuid ev))) (body req))"
  show ?thesis
  proof (cases "find_one_and_update (fault_at ev 0) (params_id req) (mongo_push_floor ?f) (store w)")
    case (Inl e)
    then show ?thesis by (simp add: add_floor_def add_floor_try_def)
  next
    case (Inr p)
    obtain r st' where p: "p = (r, st')" by (cases p)
    have "map building_id st' = map building_id (store w)"
      by (rule find_one_and_update_ids [OF Inr [unfolded p]]) (rule mongo_push_floor_id)
    then show ?thesis
      using Inr p by (cases r) (simp_all add: add_floor_def add_floor_try_def)
  qed
qed

lemma ids_delete_floor:
  "map building_id (store (snd (delete_floor ev req w))) = map building_id (store w)"
proof (cases "find_one_and_update (fault_at ev 0) (params_id req)
                (mongo_pull_floor (params_floorId req)) (store w)")
  case (Inl e)
  then show ?thesis by (simp add: delete_floor_def delete_floor_try_def)
next
  case (Inr p)
  obtain r st' where p: "p = (r, st')" by (cases p)
  have "map building_id st' = map building_id (store w)"
    by (rule find_one_and_update_ids [OF Inr [unfolded p]]) (rule mongo_pull_floor_id)
  then show ?thesis
    using Inr p by (cases r) (simp_all add: delete_floor_def delete_floor_try_def)
qed

lemma ids_upload_model:
  "map building_id (store (snd (upload_model ev req w))) = map building_id (store w)"
proof -
  have upd: "\<And>url fault st r st'.
      find_one_and_update fault (params_id req) (mongo_set [(''modelPath'', JStr url)]) st
        = Inr (r, st') \<Longrightarrow> map building_id st' = map building_id st"
    by (erule find_one_and_update_ids) (auto simp: mongo_set_def building_id_def AList.update_conv')
  show ?thesis
    by (auto simp: upload_model_def upload_model_try_def upload_stream_def
        split: sum.splits option.splits dest: upd)
qed

lemma ids_update_floor:
  "map building_id (store (snd (update_floor ev req w))) = map building_id (store w)"
proof -
  have rep: "map building_id (replace_first (matches_id (params_id req))
                 (AList.update ''floors'' x b) (store w)) = map building_id (store w)"
    if "find_one (params_id req) (store w) = Some b" for x b
  proof (rule map_replace_first)
    fix d
    assume "matches_id (params_id req) d"
    then show "building_id (AList.update ''floors'' x b) = building_id d"
      using find_one_matches [OF that]
      by (simp add: building_id_def matches_id_def AList.update_conv')
  qed
  show ?thesis
    by (auto simp: update_floor_def update_floor_try_def Let_def db_call_def rep
        split: sum.splits option.splits json.splits)
qed

lemma after_delete_nth:
  "k < length st \<Longrightarrow> after_delete P st k = Some k' \<Longrightarrow>
   k' < length (delete_first P st) \<and> delete_first P st ! k' = st ! k"
proof (induction st arbitrary: k k')
  case Nil
  then show ?case by simp
next
  case (Cons d ds)
  show ?case
  proof (cases k)
    case 0
    with Cons.prems show ?thesis by (auto split: if_splits)
  next
    case (Suc j)
    show ?thesis
    proof (cases "P d")
      case True
      with Cons.prems Suc show ?thesis by auto
    next
      case False
      with Cons.prems Suc obtain j' where j': "after_delete P ds j = Some j'" "k' = Suc j'"
        by auto
      with Cons.IH [of j j'] Cons.prems Suc False show ?thesis by simp
    qed
  qed
qed

lemma delete_first_none: "find P st = None \<Longrightarrow> delete_first P st = st"
  by (induction st) (auto split: if_splits)

lemma store_delete_building:
  "store (snd (delete_building ev req w)) =
     (if fault_at ev 0 = None then delete_first (matches_id (params_id req)) (store w)
      else store w)"
  by (cases "fault_at ev 0"; cases "find_one (params_id req) (store w)")
     (simp_all add: delete_building_def delete_building_try_def find_one_and_delete_def
        delete_first_none find_one_def)

lemma append_nth_keeps:
  assumes "map g ys = map g xs @ ds" and "k < length xs"
  shows "k < length ys \<and> g (ys ! k) = g (xs ! k)"
proof -
  have "length (map g ys) = length xs + length ds"
    using assms(1) by simp
  then have len: "k < length ys" using assms(2) by simp
  have "map g ys ! k = map g xs ! k"
    using assms by (simp add: nth_append)
  with len assms(2) show ?thesis by simp
qed

lemma step_keeps_ids:
  assumes "id_safe (r, ev, req)" and "k < length (store w)"
    and "position_after (r, ev, req) w k = Some k'"
  shows "k' < length (store (snd (handler r ev req w))) \<and>
         building_id (store (snd (handler r ev req w)) ! k') = building_id (store w ! k)"
proof (cases r)
  case CreateBuilding
  obtain ds where "store (snd (create_building ev req w)) = store w @ ds"
    using store_create_building [of ev req w] by auto
  then show ?thesis
    using assms CreateBuilding by (simp add: position_after_def nth_append)
next
  case UpdateBuilding
  then have "map building_id (store (snd (handler r ev req w))) = map building_id (store w) @ []"
    using assms(1) ids_update_building [of req ev w] by (simp add: id_safe_def)
  from append_nth_keeps [OF this assms(2)] show ?thesis
    using assms(3) UpdateBuilding by (simp add: position_after_def)
next
  case DeleteBuilding
  show ?thesis
  proof (cases "fault_at ev 0")
    case None
    then show ?thesis
      using assms DeleteBuilding after_delete_nth [of k "store w" "matches_id (params_id req)" k']
      by (simp add: position_after_def store_delete_building)
  next
    case (Some e)
    then show ?thesis
      using assms DeleteBuilding by (simp add: position_after_def store_delete_building)
  qed
next
  case AddFloor
  then have "map building_id (store (snd (handler r ev req w))) = map building_id (store w) @ []"
    by (simp add: ids_add_floor)
  from append_nth_keeps [OF this assms(2)] show ?thesis
    using assms(3) AddFloor by (simp add: position_after_def)
next
  case UpdateFloor
  then have "map building_id (store (snd (handler r ev req w))) = map building_id (store w) @ []"
    by (simp add: ids_update_floor)
  from append_nth_keeps [OF this assms(2)] show ?thesis
    using assms(3) UpdateFloor by (simp add: position_after_def)
next
  case DeleteFloor
  then have "map building_id (store (snd (handler r ev req w))) = map building_id (store w) @ []"
    by (simp add: ids_delete_floor)
  from append_nth_keeps [OF this assms(2)] show ?thesis
    using assms(3) DeleteFloor by (simp add: position_after_def)
next
  case UploadModel
  then have "map building_id (store (snd (handler r ev req w))) = map building_id (store w) @ []"
    by (simp add: ids_upload_model)
  from append_nth_keeps [OF this assms(2)] show ?thesis
    using assms(3) UploadModel by (simp add: position_after_def)
qed (use assms in \<open>simp_all add: position_after_def\<close>)

text \<open>
  C2, as the code has it. Through every sequence of requests in which no generic update
  carries an \<open>id\<close> other than the one in its path, a stored Building keeps the \<open>id\<close> it
  had, for as long as it is not deleted: whatever the other fields of the update bodies,
  and whatever floors are added, changed or removed and models uploaded in between.
\<close>

theorem building_id_stable:
  assumes "\<forall>op \<in> set ops. id_safe op" and "k < length (store w)"
    and "track ops w k = Some k'"
  shows "k' < length (store (run ops w)) \<and>
         building_id (store (run ops w) ! k') = building_id (store w ! k)"
  using assms
proof (induction ops arbitrary: w k)
  case Nil
  then show ?case by simp
next
  case (Cons op ops)
  obtain r ev req where op: "op = (r, ev, req)" by (cases op)
  from Cons.prems(3) obtain j where j: "position_after (r, ev, req) w k = Some j"
      and rest: "track ops (snd (handler r ev req w)) j = Some k'"
    by (auto simp: op split: option.splits)
  have safe: "id_safe (r, ev, req)" using Cons.prems(1) op by simp
  from step_keeps_ids [OF safe Cons.prems(2) j]
  have 1: "j < length (store (snd (handler r ev req w)))"
    and 2: "building_id (store (snd (handler r ev req w)) ! j) = building_id (store w ! k)"
    by simp_all
  have "k' < length (store (run ops (snd (handler r ev req w)))) \<and>
        building_id (store (run ops (snd (handler r ev req w))) ! k')
          = building_id (store (snd (handler r ev req w)) ! j)"
    using Cons.prems(1) by (intro Cons.IH [OF _ 1 rest]) simp
  with 2 show ?case by (simp add: op)
qed

text \<open>
  Two Buildings; the second is renamed, then the first is deleted. The second, now at the
  first position, still has its id.
\<close>

theorem building_id_stable_witness:
  "building_id
     (store (run [(UpdateBuilding, quiet_env, json_request ''b2'' [] [(''name'', JStr ''Annex'')]),
                  (DeleteBuilding, quiet_env, json_request ''b1'' [] [])]
               \<lparr>store = [[(''id'', JStr ''b1'')], [(''id'', JStr ''b2'')]], uploads = []\<rparr>) ! 0)
   = Some (JStr ''b2'')"
  using building_id_stable [where
      ops = "[(UpdateBuilding, quiet_env, json_request ''b2'' [] [(''name'', JStr ''Annex'')]),
              (DeleteBuilding, quiet_env, json_request ''b1'' [] [])]"
      and w = "\<lparr>store = [[(''id'', JStr ''b1'')], [(''id'', JStr ''b2'')]], uploads = []\<rparr>"
      and k = 1 and k' = 0]
  by (simp add: id_safe_def position_after_def quiet_env_def json_request_def fault_at_def
      update_building_def update_building_try_def find_one_and_update_def find_one_def
      matches_id_def mongo_set_def object_assign_def building_id_def)

text \<open>
  A generic update of the Building \<open>b1\<close> whose body has the id \<open>b2\<close>: the stored Building
  has the id \<open>b2\<close> afterwards.
\<close>

theorem update_building_overwrites_id_counterexample:
  "update_building quiet_env (json_request ''b1'' [] [(''id'', JStr ''b2'')])
     \<lparr>store = [[(''id'', JStr ''b1''), (''name'', JStr ''Tower A'')]], uploads = []\<rparr>
   = (respond 200 (JObj [(''id'', JStr ''b2''), (''name'', JStr ''Tower A'')]),
      \<lparr>store = [[(''id'', JStr ''b2''), (''name'', JStr ''Tower A'')]], uploads = []\<rparr>)"
  by (simp add: quiet_env_def json_request_def fault_at_def
      update_building_def update_building_try_def find_one_and_update_def find_one_def
      matches_id_def mongo_set_def object_assign_def)

section \<open>Unexpected failures\<close>
















section \<open>The name of an uploaded frame\<close>


lemma length_decimal_step: "10 \<le> n \<Longrightarrow> length (decimal n) = Suc (length (decimal (n div 10)))"
  by (subst decimal.simps) simp


lemma length_decimal_pos: "Suc 0 \<le> length (decimal n)"
  by (subst decimal.simps) simp

lemma length_decimal_three: "100 \<le> n \<Longrightarrow> 3 \<le> length (decimal n)"
proof -
  assume n: "100 \<le> n"
  then have "10 \<le> n div 10" by simp
  then have "length (decimal n) = Suc (Suc (length (decimal (n div 10 div 10))))"
    using n by (simp add: length_decimal_step)
  then show ?thesis
    using length_decimal_pos [of "n div 10 div 10"] by arith
qed

lemma length_decimal_four: "1000 \<le> n \<Longrightarrow> 3 < length (decimal n)"
proof -
  assume n: "1000 \<le> n"
  then have "100 \<le> n div 10" by simp
  from length_decimal_three [OF this] have "3 \<le> length (decimal (n div 10))" .
  moreover have "length (decimal n) = Suc (length (decimal (n div 10)))"
    using n by (intro length_decimal_step) simp
  ultimately show ?thesis by arith
qed




lemma upload_frame_sends:
  assumes "req_file req = Some buf" and "map_of (body req) ''frameNumber'' = Some fn"
    and "truthy (Some fn)" and "fault_at ev 0 = None"
    and "find_one (params_id req) (store w) = Some b"
    and "js_String (exponent_form ev) fn = Inr s"
  shows "upload_frame_try ev req w =
     (case cloud ev (frame_options (params_id req) (padStart 3 CHR ''0'' s)) buf of
        Inl e \<Rightarrow> Inl e
      | Inr url \<Rightarrow> Inr (respond 200 (JObj [(''success'', JBool True), (''url'', JStr url)])),
      w\<lparr>uploads := uploads w @
          [(frame_options (params_id req) (padStart 3 CHR ''0'' s), buf)]\<rparr>)"
  using assms
  by (simp add: upload_frame_try_def upload_stream_def Let_def js_String_of_def
      split: sum.splits)

lemma upload_frame_throws:
  assumes "req_file req = Some buf" and "map_of (body req) ''frameNumber'' = Some fn"
    and "truthy (Some fn)" and "fault_at ev 0 = None"
    and "find_one (params_id req) (store w) = Some b"
    and "js_String (exponent_form ev) fn = Inl e"
  shows "upload_frame_try ev req w = (Inl e, w)"
  using assms
  by (simp add: upload_frame_try_def js_String_of_def)



section \<open>Uploading a model\<close>

lemma upload_model_resolved:
  assumes "req_file req = Some buf" and "fault_at ev 0 = None" and "fault_at ev 1 = None"
    and "find_one (params_id req) (store w) = Some b"
    and "cloud ev (model_options (params_id req)) buf = Inr url"
  shows "upload_model ev req w =
     (respond 200 (JObj [(''url'', JStr url)]),
      w\<lparr>uploads := uploads w @ [(model_options (params_id req), buf)],
        store := replace_first (matches_id (params_id req))
                   (AList.update ''modelPath'' (JStr url) b) (store w)\<rparr>)"
  using assms
  by (simp add: upload_model_def upload_model_try_def upload_stream_def
      find_one_and_update_def mongo_set_def)

lemma upload_model_rejected:
  assumes "req_file req = Some buf" and "fault_at ev 0 = None"
    and "find_one (params_id req) (store w) = Some b"
    and "cloud ev (model_options (params_id req)) buf = Inl e"
  shows "upload_model ev req w =
     (respond 500 (message_body ''Failed to upload model''),
      w\<lparr>uploads := uploads w @ [(model_options (params_id req), buf)]\<rparr>)"
  using assms
  by (simp add: upload_model_def upload_model_try_def upload_stream_def)

text \<open>
  C5. Two model uploads for the same building, both with a file, both resolved by the
  upload channel and both persisted: each answers 200 with its URL; both files were sent
  to the same place, the name \<open>model\<close> in the building's model folder, with overwrite
  enabled; and the stored Building is the original one with \<open>modelPath\<close> set to the second
  URL, with no trace of the first.
\<close>

theorem upload_model_single_slot:
  assumes "req_file reqA = Some bufA" and "req_file reqB = Some bufB"
    and "params_id reqA = i" and "params_id reqB = i"
    and "find_one i (store w) = Some b"
    and "fault_at evA 0 = None" and "fault_at evA 1 = None"
    and "fault_at evB 0 = None" and "fault_at evB 1 = None"
    and "cloud evA (model_options i) bufA = Inr urlA"
    and "cloud evB (model_options i) bufB = Inr urlB"
  shows "fst (upload_model evA reqA w) = respond 200 (JObj [(''url'', JStr urlA)])
       \<and> fst (upload_model evB reqB (snd (upload_model evA reqA w)))
           = respond 200 (JObj [(''url'', JStr urlB)])
       \<and> uploads (snd (upload_model evB reqB (snd (upload_model evA reqA w))))
           = uploads w @ [(model_options i, bufA), (model_options i, bufB)]
       \<and> public_id (model_options i) = ''model''
       \<and> folder (model_options i) = ''buildings/'' @ i @ ''/models''
       \<and> overwrite (model_options i)
       \<and> find_one i (store (snd (upload_model evB reqB (snd (upload_model evA reqA w)))))
           = Some (AList.update ''modelPath'' (JStr urlB) b)
       \<and> map_of (AList.update ''modelPath'' (JStr urlB) b) ''modelPath'' = Some (JStr urlB)"
proof -
  let ?b1 = "AList.update ''modelPath'' (JStr urlA) b"
  let ?b2 = "AList.update ''modelPath'' (JStr urlB) b"
  let ?w1 = "w\<lparr>uploads := uploads w @ [(model_options i, bufA)],
               store := replace_first (matches_id i) ?b1 (store w)\<rparr>"
  have m: "matches_id i b" using assms(5) by (rule find_one_matches)
  have m1: "matches_id i ?b1" using m by (simp add: matches_id_update_other)
  have m2: "matches_id i ?b2" using m by (simp add: matches_id_update_other)
  have 1: "upload_model evA reqA w = (respond 200 (JObj [(''url'', JStr urlA)]), ?w1)"
    using upload_model_resolved [of reqA bufA evA w b urlA] assms by simp
  have f1: "find_one i (store ?w1) = Some ?b1"
    using find_one_replace_first [OF m1 assms(5)] by simp
  have 2: "upload_model evB reqB ?w1 =
      (respond 200 (JObj [(''url'', JStr urlB)]),
       ?w1\<lparr>uploads := uploads ?w1 @ [(model_options i, bufB)],
            store := replace_first (matches_id i)
                       (AList.update ''modelPath'' (JStr urlB) ?b1) (store ?w1)\<rparr>)"
    using upload_model_resolved [of reqB bufB evB ?w1 ?b1 urlB] assms f1 by simp
  have st: "store (snd (upload_model evB reqB ?w1)) = replace_first (matches_id i) ?b2 (store w)"
    using m1 by (simp add: 2)
  have fin: "find_one i (store (snd (upload_model evB reqB ?w1))) = Some ?b2"
    using find_one_replace_first [OF m2 assms(5)] by (simp only: st)
  have up: "uploads (snd (upload_model evB reqB ?w1))
      = uploads w @ [(model_options i, bufA), (model_options i, bufB)]"
    by (simp add: 2)
  have opts: "public_id (model_options i) = ''model''"
    "folder (model_options i) = ''buildings/'' @ i @ ''/models''" "overwrite (model_options i)"
    by (simp_all add: model_options_def)
  have path: "map_of ?b2 ''modelPath'' = Some (JStr urlB)"
    by (simp add: AList.update_conv')
  have r2: "fst (upload_model evB reqB ?w1) = respond 200 (JObj [(''url'', JStr urlB)])"
    by (simp add: 2)
  show ?thesis
    unfolding 1 fst_conv snd_conv using r2 up opts fin path by blast
qed

text \<open>Two uploads for \<open>b1\<close>, resolved with a first and then a second URL.\<close>

theorem upload_model_single_slot_witness:
  "find_one ''b1''
     (store (snd (upload_model (quiet_env\<lparr>cloud := cloud_resolves ''https://cdn.example/v2/model''\<rparr>)
                    (multipart_request ''b1'' [] [103, 108, 84, 70])
                    (snd (upload_model
                            (quiet_env\<lparr>cloud := cloud_resolves ''https://cdn.example/v1/model''\<rparr>)
                            (multipart_request ''b1'' [] [103, 108, 84, 70])
                            \<lparr>store = [[(''id'', JStr ''b1'')]], uploads = []\<rparr>)))))
   = Some [(''id'', JStr ''b1''), (''modelPath'', JStr ''https://cdn.example/v2/model'')]"
  using upload_model_single_slot [where i = "''b1''"
      and reqA = "multipart_request ''b1'' [] [103, 108, 84, 70]"
      and reqB = "multipart_request ''b1'' [] [103, 108, 84, 70]"
      and bufA = "[103, 108, 84, 70]" and bufB = "[103, 108, 84, 70]"
      and evA = "quiet_env\<lparr>cloud := cloud_resolves ''https://cdn.example/v1/model''\<rparr>"
      and evB = "quiet_env\<lparr>cloud := cloud_resolves ''https://cdn.example/v2/model''\<rparr>"
      and urlA = "''https://cdn.example/v1/model''" and urlB = "''https://cdn.example/v2/model''"
      and w = "\<lparr>store = [[(''id'', JStr ''b1'')]], uploads = []\<rparr>"
      and b = "[(''id'', JStr ''b1'')]"]
  by (simp add: quiet_env_def multipart_request_def cloud_resolves_def fault_at_def
      find_one_def matches_id_def)

section \<open>Updating a floor\<close>

lemma findIndex_floor_none:
  "JNull \<notin> set fs \<Longrightarrow> \<forall>f \<in> set fs. \<not> floor_matches fid f \<Longrightarrow> findIndex_floor fid fs = Inr None"
  by (induction fs) auto

lemma findIndex_floor_first:
  "k < length fs \<Longrightarrow> floor_matches fid (fs ! k) \<Longrightarrow> \<forall>j<k. \<not> floor_matches fid (fs ! j) \<Longrightarrow>
   JNull \<notin> set fs \<Longrightarrow> findIndex_floor fid fs = Inr (Some k)"
proof (induction fs arbitrary: k)
  case Nil
  then show ?case by simp
next
  case (Cons f fs)
  show ?case
  proof (cases k)
    case 0
    with Cons.prems show ?thesis by auto
  next
    case (Suc n)
    have nf: "\<not> floor_matches fid f"
      using Cons.prems(3) Suc by auto
    have "findIndex_floor fid fs = Inr (Some n)"
    proof (rule Cons.IH)
      show "n < length fs" using Cons.prems(1) Suc by simp
      show "floor_matches fid (fs ! n)" using Cons.prems(2) Suc by simp
      show "\<forall>j<n. \<not> floor_matches fid (fs ! j)"
        using Cons.prems(3) Suc by auto
      show "JNull \<notin> set fs" using Cons.prems(4) by simp
    qed
    with nf Cons.prems(4) Suc show ?thesis by auto
  qed
qed

lemma update_floor_found:
  assumes "fault_at ev 0 = None" and "fault_at ev 1 = None"
    and "find_one (params_id req) (store w) = Some b"
    and "map_of b ''floors'' = Some (JArr fs)" and "JNull \<notin> set fs"
    and "k < length fs" and "fs ! k = JObj ps" and "map_of ps ''id'' = Some (JStr (params_floorId req))"
    and "\<forall>j<k. \<not> floor_matches (params_floorId req) (fs ! j)"
  shows "update_floor ev req w =
     (respond 200
        (JObj (AList.update ''floors''
                 (JArr (fs[k := JObj (object_assign ps (body req))])) b)),
      w\<lparr>store := replace_first (matches_id (params_id req))
                   (AList.update ''floors''
                      (JArr (fs[k := JObj (object_assign ps (body req))])) b)
                   (store w)\<rparr>)"
proof -
  have "floor_matches (params_floorId req) (fs ! k)"
    using assms(7,8) by (simp add: floor_matches_def)
  then have "findIndex_floor (params_floorId req) fs = Inr (Some k)"
    using assms(5,6,9) by (intro findIndex_floor_first)
  then show ?thesis
    using assms(1-4,7)
    by (simp add: update_floor_def update_floor_try_def Let_def assign_floor_def)
qed

text \<open>
  C6. When the first database call does not throw: updating a floor of a building that
  does not exist answers 404 \<open>Building not found\<close>; of a building that exists, and whose
  floors have no entry with the given id, 404 \<open>Floor not found\<close>, a different message.
  When \<open>k\<close> is the first position whose floor has the id and the save does not throw, the
  answer is 200 with the building in which the floor at \<open>k\<close> is that floor with the body
  assigned over it, and that building is the stored one afterwards. The floors are a list
  without \<open>null\<close> entries.
\<close>

theorem update_floor_answers:
  assumes "fault_at ev 0 = None"
  shows "(find_one (params_id req) (store w) = None \<longrightarrow>
            update_floor ev req w = (respond 404 (message_body ''Building not found''), w))
       \<and> (find_one (params_id req) (store w) = Some b \<longrightarrow> map_of b ''floors'' = Some (JArr fs) \<longrightarrow>
            JNull \<notin> set fs \<longrightarrow> (\<forall>f \<in> set fs. \<not> floor_matches (params_floorId req) f) \<longrightarrow>
            update_floor ev req w = (respond 404 (message_body ''Floor not found''), w))
       \<and> message_body ''Floor not found'' \<noteq> message_body ''Building not found''
       \<and> (find_one (params_id req) (store w) = Some b \<longrightarrow> map_of b ''floors'' = Some (JArr fs) \<longrightarrow>
            JNull \<notin> set fs \<longrightarrow> k < length fs \<longrightarrow> fs ! k = JObj ps \<longrightarrow>
            map_of ps ''id'' = Some (JStr (params_floorId req)) \<longrightarrow>
            (\<forall>j<k. \<not> floor_matches (params_floorId req) (fs ! j)) \<longrightarrow>
            fault_at ev 1 = None \<longrightarrow>
            fst (update_floor ev req w) =
              respond 200
                (JObj (AList.update ''floors''
                         (JArr (fs[k := JObj (object_assign ps (body req))])) b))
            \<and> find_one (params_id req) (store (snd (update_floor ev req w))) =
                Some (AList.update ''floors''
                        (JArr (fs[k := JObj (object_assign ps (body req))])) b))"
proof (intro conjI impI)
  show "update_floor ev req w = (respond 404 (message_body ''Building not found''), w)"
    if "find_one (params_id req) (store w) = None"
    using that assms by (simp add: update_floor_def update_floor_try_def)
  show "update_floor ev req w = (respond 404 (message_body ''Floor not found''), w)"
    if "find_one (params_id req) (store w) = Some b" "map_of b ''floors'' = Some (JArr fs)"
      "JNull \<notin> set fs" "\<forall>f \<in> set fs. \<not> floor_matches (params_floorId req) f"
    using that assms findIndex_floor_none [of fs "params_floorId req"]
    by (simp add: update_floor_def update_floor_try_def)
  show "message_body ''Floor not found'' \<noteq> message_body ''Building not found''"
    by (simp add: message_body_def)
next
  let ?b' = "AList.update ''floors'' (JArr (fs[k := JObj (object_assign ps (body req))])) b"
  assume h: "find_one (params_id req) (store w) = Some b" "map_of b ''floors'' = Some (JArr fs)"
    "JNull \<notin> set fs" "k < length fs" "fs ! k = JObj ps"
    "map_of ps ''id'' = Some (JStr (params_floorId req))"
    "\<forall>j<k. \<not> floor_matches (params_floorId req) (fs ! j)" "fault_at ev 1 = None"
  have run: "update_floor ev req w =
      (respond 200 (JObj ?b'),
       w\<lparr>store := replace_first (matches_id (params_id req)) ?b' (store w)\<rparr>)"
    using update_floor_found [OF assms h(8) h(1-7)] .
  show "fst (update_floor ev req w) = respond 200 (JObj ?b')"
    by (simp add: run)
  have "matches_id (params_id req) ?b'"
    using find_one_matches [OF h(1)] by (simp add: matches_id_update_other)
  from find_one_replace_first [OF this h(1)]
  show "find_one (params_id req) (store (snd (update_floor ev req w))) = Some ?b'"
    by (simp add: run)
qed

text \<open>
  A building in which two floors have the id \<open>f1\<close>: only the first is changed. A floor id
  that no floor has is answered with \<open>Floor not found\<close>.
\<close>

theorem update_floor_answers_witness:
  "update_floor quiet_env (json_request ''b1'' ''f1'' [(''label'', JStr ''Z'')])
     \<lparr>store = [[(''id'', JStr ''b1''),
                 (''floors'', JArr [JObj [(''id'', JStr ''f1''), (''label'', JStr ''A'')],
                                    JObj [(''id'', JStr ''f1''), (''label'', JStr ''B'')]])]],
      uploads = []\<rparr>
   = (respond 200
        (JObj [(''id'', JStr ''b1''),
               (''floors'', JArr [JObj [(''id'', JStr ''f1''), (''label'', JStr ''Z'')],
                                  JObj [(''id'', JStr ''f1''), (''label'', JStr ''B'')]])]),
      \<lparr>store = [[(''id'', JStr ''b1''),
                 (''floors'', JArr [JObj [(''id'', JStr ''f1''), (''label'', JStr ''Z'')],
                                    JObj [(''id'', JStr ''f1''), (''label'', JStr ''B'')]])]],
       uploads = []\<rparr>)
   \<and> update_floor quiet_env (json_request ''b1'' ''f9'' [(''label'', JStr ''Z'')])
     \<lparr>store = [[(''id'', JStr ''b1''),
                 (''floors'', JArr [JObj [(''id'', JStr ''f1''), (''label'', JStr ''A'')],
                                    JObj [(''id'', JStr ''f1''), (''label'', JStr ''B'')]])]],
      uploads = []\<rparr>
   = (respond 404 (message_body ''Floor not found''),
      \<lparr>store = [[(''id'', JStr ''b1''),
                 (''floors'', JArr [JObj [(''id'', JStr ''f1''), (''label'', JStr ''A'')],
                                    JObj [(''id'', JStr ''f1''), (''label'', JStr ''B'')]])]],
      uploads = []\<rparr>)"
  using update_floor_answers [where ev = quiet_env
      and req = "json_request ''b1'' ''f1'' [(''label'', JStr ''Z'')]"
      and w = "\<lparr>store = [[(''id'', JStr ''b1''),
                 (''floors'', JArr [JObj [(''id'', JStr ''f1''), (''label'', JStr ''A'')],
                                    JObj [(''id'', JStr ''f1''), (''label'', JStr ''B'')]])]],
      uploads = []\<rparr>"
      and b = "[(''id'', JStr ''b1''),
                 (''floors'', JArr [JObj [(''id'', JStr ''f1''), (''label'', JStr ''A'')],
                                    JObj [(''id'', JStr ''f1''), (''label'', JStr ''B'')]])]"
      and fs = "[JObj [(''id'', JStr ''f1''), (''label'', JStr ''A'')],
                JObj [(''id'', JStr ''f1''), (''label'', JStr ''B'')]]"
      and k = 0 and ps = "[(''id'', JStr ''f1''), (''label'', JStr ''A'')]"]
    update_floor_answers [where ev = quiet_env
      and req = "json_request ''b1'' ''f9'' [(''label'', JStr ''Z'')]"
      and w = "\<lparr>store = [[(''id'', JStr ''b1''),
                 (''floors'', JArr [JObj [(''id'', JStr ''f1''), (''label'', JStr ''A'')],
                                    JObj [(''id'', JStr ''f1''), (''label'', JStr ''B'')]])]],
      uploads = []\<rparr>"
      and b = "[(''id'', JStr ''b1''),
                 (''floors'', JArr [JObj [(''id'', JStr ''f1''), (''label'', JStr ''A'')],
                                    JObj [(''id'', JStr ''f1''), (''label'', JStr ''B'')]])]"
      and fs = "[JObj [(''id'', JStr ''f1''), (''label'', JStr ''A'')],
                JObj [(''id'', JStr ''f1''), (''label'', JStr ''B'')]]"]
  by (simp add: quiet_env_def json_request_def fault_at_def find_one_def matches_id_def
      floor_matches_def update_floor_def update_floor_try_def Let_def assign_floor_def
      object_assign_def)

section \<open>Removing a floor\<close>

lemma delete_floor_found:
  assumes "fault_at ev 0 = None" and "find_one (params_id req) (store w) = Some b"
    and "map_of b ''floors'' = Some (JArr fs)"
  shows "delete_floor ev req w =
     (respond 200
        (JObj (AList.update ''floors''
                 (JArr (filter (\<lambda>f. \<not> floor_matches (params_floorId req) f) fs)) b)),
      w\<lparr>store := replace_first (matches_id (params_id req))
                   (AList.update ''floors''
                      (JArr (filter (\<lambda>f. \<not> floor_matches (params_floorId req) f) fs)) b)
                   (store w)\<rparr>)"
  using assms
  by (simp add: delete_floor_def delete_floor_try_def find_one_and_update_def
      mongo_pull_floor_def)

lemma delete_floor_404:
  "status (fst (delete_floor ev req w)) = 404 \<Longrightarrow> find_one (params_id req) (store w) = None"
  by (cases "fault_at ev 0"; cases "find_one (params_id req) (store w)")
     (auto simp: delete_floor_def delete_floor_try_def find_one_and_update_def
        split: sum.splits)

text \<open>
  C7. When the database call does not throw: removing a floor from a building that does
  not exist answers 404; from a building that exists it answers 200 with the updated
  building, whose floors are exactly the floors whose id does not match, in their order,
  and the updated building is stored in place of the old one. When no floor matches, the
  answer is 200 with the building unchanged and the world is as it was. And whenever the
  answer is 404, the building does not exist.
\<close>

theorem delete_floor_removes_matching:
  assumes "fault_at ev 0 = None"
  shows "(find_one (params_id req) (store w) = None \<longrightarrow>
            delete_floor ev req w = (respond 404 (message_body ''Building not found''), w))
       \<and> (find_one (params_id req) (store w) = Some b \<longrightarrow> map_of b ''floors'' = Some (JArr fs) \<longrightarrow>
            delete_floor ev req w =
              (respond 200
                 (JObj (AList.update ''floors''
                          (JArr (filter (\<lambda>f. \<not> floor_matches (params_floorId req) f) fs)) b)),
               w\<lparr>store := replace_first (matches_id (params_id req))
                   (AList.update ''floors''
                      (JArr (filter (\<lambda>f. \<not> floor_matches (params_floorId req) f) fs)) b)
                   (store w)\<rparr>))
       \<and> (find_one (params_id req) (store w) = Some b \<longrightarrow> map_of b ''floors'' = Some (JArr fs) \<longrightarrow>
            (\<forall>f \<in> set fs. \<not> floor_matches (params_floorId req) f) \<longrightarrow>
            delete_floor ev req w = (respond 200 (JObj b), w))
       \<and> (status (fst (delete_floor ev req w)) = 404 \<longrightarrow>
            find_one (params_id req) (store w) = None)"
proof (intro conjI impI)
  show "delete_floor ev req w = (respond 404 (message_body ''Building not found''), w)"
    if "find_one (params_id req) (store w) = None"
    using that assms
    by (simp add: delete_floor_def delete_floor_try_def find_one_and_update_def)
  show "delete_floor ev req w =
              (respond 200
                 (JObj (AList.update ''floors''
                          (JArr (filter (\<lambda>f. \<not> floor_matches (params_floorId req) f) fs)) b)),
               w\<lparr>store := replace_first (matches_id (params_id req))
                   (AList.update ''floors''
                      (JArr (filter (\<lambda>f. \<not> floor_matches (params_floorId req) f) fs)) b)
                   (store w)\<rparr>)"
    if "find_one (params_id req) (store w) = Some b" "map_of b ''floors'' = Some (JArr fs)"
    using delete_floor_found [OF assms that] .
  show "delete_floor ev req w = (respond 200 (JObj b), w)"
    if b: "find_one (params_id req) (store w) = Some b"
      and fs: "map_of b ''floors'' = Some (JArr fs)"
      and no: "\<forall>f \<in> set fs. \<not> floor_matches (params_floorId req) f"
  proof -
    have "filter (\<lambda>f. \<not> floor_matches (params_floorId req) f) fs = fs"
      using no by (simp add: filter_id_conv)
    moreover have "AList.update ''floors'' (JArr fs) b = b"
      using fs by (rule AList.update_triv)
    moreover have "replace_first (matches_id (params_id req)) b (store w) = store w"
      using b unfolding find_one_def by (rule replace_first_found)
    ultimately show ?thesis
      using delete_floor_found [OF assms b fs] by simp
  qed
  show "find_one (params_id req) (store w) = None"
    if "status (fst (delete_floor ev req w)) = 404"
    using that by (rule delete_floor_404)
qed

text \<open>A building in which two floors have the id \<open>f1\<close>: both are removed.\<close>

theorem delete_floor_removes_matching_witness:
  "delete_floor quiet_env (json_request ''b1'' ''f1'' [])
     \<lparr>store = [[(''id'', JStr ''b1''),
                 (''floors'', JArr [JObj [(''id'', JStr ''f1'')], JObj [(''id'', JStr ''f2'')],
                                    JObj [(''id'', JStr ''f1''), (''label'', JStr ''L1'')]])]],
      uploads = []\<rparr>
   = (respond 200 (JObj [(''id'', JStr ''b1''), (''floors'', JArr [JObj [(''id'', JStr ''f2'')]])]),
      \<lparr>store = [[(''id'', JStr ''b1''), (''floors'', JArr [JObj [(''id'', JStr ''f2'')]])]],
       uploads = []\<rparr>)"
  using delete_floor_removes_matching [where ev = quiet_env
      and req = "json_request ''b1'' ''f1'' []"
      and w = "\<lparr>store = [[(''id'', JStr ''b1''),
                 (''floors'', JArr [JObj [(''id'', JStr ''f1'')], JObj [(''id'', JStr ''f2'')],
                                    JObj [(''id'', JStr ''f1''), (''label'', JStr ''L1'')]])]],
               uploads = []\<rparr>"
      and b = "[(''id'', JStr ''b1''),
                 (''floors'', JArr [JObj [(''id'', JStr ''f1'')], JObj [(''id'', JStr ''f2'')],
                                    JObj [(''id'', JStr ''f1''), (''label'', JStr ''L1'')]])]"
      and fs = "[JObj [(''id'', JStr ''f1'')], JObj [(''id'', JStr ''f2'')],
                JObj [(''id'', JStr ''f1''), (''label'', JStr ''L1'')]]"]
  by (simp add: quiet_env_def json_request_def fault_at_def find_one_def matches_id_def
      floor_matches_def)

section \<open>What a floor update leaves alone\<close>

text \<open>
  C8. When the floor with the given id is at position \<open>k\<close> of the building's floors (the
  first with that id) and nothing throws, the answer is 200 with a building that has the
  same fields in the same order, the same value for every field but \<open>floors\<close>, and a
  floors list of the same length in which every floor but the one at \<open>k\<close> is as it was.
  That building replaces the old one in the collection; every other building, and the
  remote assets, are as they were.
\<close>

theorem update_floor_frame:
  assumes "fault_at ev 0 = None" and "fault_at ev 1 = None"
    and "find_one (params_id req) (store w) = Some b"
    and "map_of b ''floors'' = Some (JArr fs)" and "JNull \<notin> set fs"
    and "k < length fs" and "fs ! k = JObj ps" and "map_of ps ''id'' = Some (JStr (params_floorId req))"
    and "\<forall>j<k. \<not> floor_matches (params_floorId req) (fs ! j)"
  shows "\<exists>b' fs'. fst (update_floor ev req w) = respond 200 (JObj b')
       \<and> map_of b' ''floors'' = Some (JArr fs')
       \<and> length fs' = length fs
       \<and> (\<forall>j<length fs. j \<noteq> k \<longrightarrow> fs' ! j = fs ! j)
       \<and> (\<forall>key. key \<noteq> ''floors'' \<longrightarrow> map_of b' key = map_of b key)
       \<and> map fst b' = map fst b
       \<and> (\<exists>n<length (store w). store w ! n = b
             \<and> store (snd (update_floor ev req w)) = (store w)[n := b'])
       \<and> uploads (snd (update_floor ev req w)) = uploads w"
proof -
  let ?fs' = "fs[k := JObj (object_assign ps (body req))]"
  let ?b' = "AList.update ''floors'' (JArr ?fs') b"
  have run: "update_floor ev req w =
      (respond 200 (JObj ?b'),
       w\<lparr>store := replace_first (matches_id (params_id req)) ?b' (store w)\<rparr>)"
    using update_floor_found [OF assms] .
  have 1: "fst (update_floor ev req w) = respond 200 (JObj ?b')"
    by (simp add: run)
  have 2: "map_of ?b' ''floors'' = Some (JArr ?fs')"
    by (simp add: AList.update_conv')
  have 3: "length ?fs' = length fs" by simp
  have 4: "\<forall>j<length fs. j \<noteq> k \<longrightarrow> ?fs' ! j = fs ! j" by simp
  have 5: "\<forall>key. key \<noteq> ''floors'' \<longrightarrow> map_of ?b' key = map_of b key"
    by (simp add: AList.update_conv')
  have "''floors'' \<in> fst ` set b"
    using assms(4) by (metis map_of_eq_None_iff option.distinct(1))
  then have 6: "map fst ?b' = map fst b"
    by (simp add: AList.update_keys)
  have 7: "\<exists>n<length (store w). store w ! n = b
             \<and> store (snd (update_floor ev req w)) = (store w)[n := ?b']"
    using replace_first_as_update [of "matches_id (params_id req)" "store w" b ?b'] assms(3)
    by (simp add: run find_one_def)
  have 8: "uploads (snd (update_floor ev req w)) = uploads w"
    by (simp add: run)
  show ?thesis
    using 1 2 3 4 5 6 7 8 by blast
qed

text \<open>The second floor of the second building gets a new label and a new field.\<close>

theorem update_floor_frame_witness:
  "update_floor quiet_env
     (json_request ''b1'' ''f2'' [(''label'', JStr ''Roof''), (''height'', JNum 4)])
     \<lparr>store = [[(''id'', JStr ''b0''), (''floors'', JArr [JObj [(''id'', JStr ''f2'')]])],
                [(''id'', JStr ''b1''), (''name'', JStr ''Tower A''),
                 (''floors'', JArr [JObj [(''id'', JStr ''f1''), (''label'', JStr ''L1'')],
                                    JObj [(''id'', JStr ''f2''), (''label'', JStr ''L2'')]])]],
      uploads = []\<rparr>
   = (respond 200
        (JObj [(''id'', JStr ''b1''), (''name'', JStr ''Tower A''),
               (''floors'', JArr [JObj [(''id'', JStr ''f1''), (''label'', JStr ''L1'')],
                                  JObj [(''id'', JStr ''f2''), (''label'', JStr ''Roof''),
                                        (''height'', JNum 4)]])]),
      \<lparr>store = [[(''id'', JStr ''b0''), (''floors'', JArr [JObj [(''id'', JStr ''f2'')]])],
                [(''id'', JStr ''b1''), (''name'', JStr ''Tower A''),
                 (''floors'', JArr [JObj [(''id'', JStr ''f1''), (''label'', JStr ''L1'')],
                                    JObj [(''id'', JStr ''f2''), (''label'', JStr ''Roof''),
                                          (''height'', JNum 4)]])]],
       uploads = []\<rparr>)"
  using update_floor_frame [where ev = quiet_env
      and req = "json_request ''b1'' ''f2'' [(''label'', JStr ''Roof''), (''height'', JNum 4)]"
      and w = "\<lparr>store = [[(''id'', JStr ''b0''), (''floors'', JArr [JObj [(''id'', JStr ''f2'')]])],
                [(''id'', JStr ''b1''), (''name'', JStr ''Tower A''),
                 (''floors'', JArr [JObj [(''id'', JStr ''f1''), (''label'', JStr ''L1'')],
                                    JObj [(''id'', JStr ''f2''), (''label'', JStr ''L2'')]])]],
      uploads = []\<rparr>"
      and b = "[(''id'', JStr ''b1''), (''name'', JStr ''Tower A''),
                 (''floors'', JArr [JObj [(''id'', JStr ''f1''), (''label'', JStr ''L1'')],
                                    JObj [(''id'', JStr ''f2''), (''label'', JStr ''L2'')]])]"
      and fs = "[JObj [(''id'', JStr ''f1''), (''label'', JStr ''L1'')],
                JObj [(''id'', JStr ''f2''), (''label'', JStr ''L2'')]]"
      and k = 1 and ps = "[(''id'', JStr ''f2''), (''label'', JStr ''L2'')]"]
  by (simp add: quiet_env_def json_request_def fault_at_def find_one_def matches_id_def
      floor_matches_def update_floor_def update_floor_try_def Let_def assign_floor_def
      object_assign_def)

section \<open>The checks of the frame upload\<close>

lemma upload_frame_failure_shape:
  "status (fst (upload_frame ev req w)) \<noteq> 200 \<Longrightarrow>
   \<exists>m. payload (fst (upload_frame ev req w)) = failure_body m"
  by (cases "fault_at ev 0")
     (auto simp: upload_frame_def upload_frame_try_def upload_stream_def Let_def
        split: option.splits sum.splits if_splits)

lemma upload_frame_success_shape:
  "status (fst (upload_frame ev req w)) = 200 \<Longrightarrow>
   \<exists>url. payload (fst (upload_frame ev req w))
           = JObj [(''success'', JBool True), (''url'', JStr url)]"
  by (cases "fault_at ev 0")
     (auto simp: upload_frame_def upload_frame_try_def upload_stream_def Let_def
        split: option.splits sum.splits if_splits)

text \<open>
  C9. The frame upload checks, in this order, that the file is there (else 400, whatever
  the frame number and the building), that the frame number is there (else 400, whatever
  the building), and that the building exists (else 404, whatever the frame number is).
  With all three, a frame number that is a text or a safe integer, and an upload that
  resolves, it answers 200 with \<open>success: true\<close> and the URL; every answer 200 has that
  body. Every answer other than 200 carries \<open>success: false\<close> and a message. One of them
  is the answer to a frame number that is an object, as the multipart field
  \<open>frameNumber[a]\<close> makes it: turning it into a string throws, so the answer is 500 and
  nothing is uploaded.
\<close>

theorem upload_frame_checks:
  "(req_file req = None \<longrightarrow>
      upload_frame ev req w = (respond 400 (failure_body ''No frame file provided''), w))
   \<and> (req_file req \<noteq> None \<longrightarrow> \<not> truthy (map_of (body req) ''frameNumber'') \<longrightarrow>
      upload_frame ev req w = (respond 400 (failure_body ''Frame number is required''), w))
   \<and> (req_file req \<noteq> None \<longrightarrow> truthy (map_of (body req) ''frameNumber'') \<longrightarrow>
      fault_at ev 0 = None \<longrightarrow> find_one (params_id req) (store w) = None \<longrightarrow>
      upload_frame ev req w = (respond 404 (failure_body ''Building not found''), w))
   \<and> (req_file req = Some buf \<longrightarrow> map_of (body req) ''frameNumber'' = Some fn \<longrightarrow>
      truthy (Some fn) \<longrightarrow> text_or_safe_integer fn \<longrightarrow>
      js_String (exponent_form ev) fn = Inr s \<longrightarrow>
      fault_at ev 0 = None \<longrightarrow> find_one (params_id req) (store w) = Some b \<longrightarrow>
      cloud ev (frame_options (params_id req) (padStart 3 CHR ''0'' s)) buf = Inr url \<longrightarrow>
      fst (upload_frame ev req w)
        = respond 200 (JObj [(''success'', JBool True), (''url'', JStr url)]))
   \<and> (status (fst (upload_frame ev req w)) = 200 \<longrightarrow>
      (\<exists>u. payload (fst (upload_frame ev req w))
             = JObj [(''success'', JBool True), (''url'', JStr u)]))
   \<and> (status (fst (upload_frame ev req w)) \<noteq> 200 \<longrightarrow>
      (\<exists>m. payload (fst (upload_frame ev req w))
             = JObj [(''success'', JBool False), (''message'', JStr m)]))
   \<and> (req_file req = Some buf \<longrightarrow> map_of (body req) ''frameNumber'' = Some (JObj ps) \<longrightarrow>
      fault_at ev 0 = None \<longrightarrow> find_one (params_id req) (store w) = Some b \<longrightarrow>
      status (fst (upload_frame ev req w)) = 500 \<and> snd (upload_frame ev req w) = w)"
proof (intro conjI impI)
  show "upload_frame ev req w = (respond 400 (failure_body ''No frame file provided''), w)"
    if "req_file req = None"
    using that by (simp add: upload_frame_def upload_frame_try_def)
  show "upload_frame ev req w = (respond 400 (failure_body ''Frame number is required''), w)"
    if "req_file req \<noteq> None" "\<not> truthy (map_of (body req) ''frameNumber'')"
    using that by (auto simp: upload_frame_def upload_frame_try_def)
  show "upload_frame ev req w = (respond 404 (failure_body ''Building not found''), w)"
    if "req_file req \<noteq> None" "truthy (map_of (body req) ''frameNumber'')"
      "fault_at ev 0 = None" "find_one (params_id req) (store w) = None"
    using that by (auto simp: upload_frame_def upload_frame_try_def)
  show "fst (upload_frame ev req w)
        = respond 200 (JObj [(''success'', JBool True), (''url'', JStr url)])"
    if "req_file req = Some buf" "map_of (body req) ''frameNumber'' = Some fn"
      "truthy (Some fn)" "text_or_safe_integer fn" "js_String (exponent_form ev) fn = Inr s"
      "fault_at ev 0 = None" "find_one (params_id req) (store w) = Some b"
      "cloud ev (frame_options (params_id req) (padStart 3 CHR ''0'' s)) buf = Inr url"
    using that(8)
    by (simp add: upload_frame_def
        upload_frame_sends [OF that(1) that(2) that(3) that(6) that(7) that(5)])
  show "\<exists>u. payload (fst (upload_frame ev req w))
             = JObj [(''success'', JBool True), (''url'', JStr u)]"
    if "status (fst (upload_frame ev req w)) = 200"
    using that by (rule upload_frame_success_shape)
  show "\<exists>m. payload (fst (upload_frame ev req w))
             = JObj [(''success'', JBool False), (''message'', JStr m)]"
    if "status (fst (upload_frame ev req w)) \<noteq> 200"
    using upload_frame_failure_shape [OF that] by (simp add: failure_body_def)
next
  assume h: "req_file req = Some buf" "map_of (body req) ''frameNumber'' = Some (JObj ps)"
    "fault_at ev 0 = None" "find_one (params_id req) (store w) = Some b"
  have "upload_frame_try ev req w =
      (Inl (JsError ''Cannot convert object to primitive value''), w)"
    by (rule upload_frame_throws [OF h(1) h(2) _ h(3) h(4)]) simp_all
  then show "status (fst (upload_frame ev req w)) = 500" "snd (upload_frame ev req w) = w"
    by (simp_all add: upload_frame_def)
qed

text \<open>
  A complete frame upload, the same request without its file, and the same request with
  an object for its frame number.
\<close>

theorem upload_frame_checks_witness:
  "fst (upload_frame quiet_env
          (multipart_request ''b1'' [(''frameNumber'', JStr ''5'')] [82, 73, 70, 70])
          \<lparr>store = [[(''id'', JStr ''b1'')]], uploads = []\<rparr>)
     = respond 200 (JObj [(''success'', JBool True), (''url'', JStr ''https://cdn.example/asset'')])
   \<and> upload_frame quiet_env (json_request ''b1'' [] [(''frameNumber'', JStr ''5'')])
          \<lparr>store = [[(''id'', JStr ''b1'')]], uploads = []\<rparr>
     = (respond 400 (failure_body ''No frame file provided''),
        \<lparr>store = [[(''id'', JStr ''b1'')]], uploads = []\<rparr>)
   \<and> status (fst (upload_frame quiet_env
          (multipart_request ''b1'' [(''frameNumber'', JObj [(''a'', JStr ''1'')])] [82, 73, 70, 70])
          \<lparr>store = [[(''id'', JStr ''b1'')]], uploads = []\<rparr>)) = 500
   \<and> snd (upload_frame quiet_env
          (multipart_request ''b1'' [(''frameNumber'', JObj [(''a'', JStr ''1'')])] [82, 73, 70, 70])
          \<lparr>store = [[(''id'', JStr ''b1'')]], uploads = []\<rparr>)
     = \<lparr>store = [[(''id'', JStr ''b1'')]], uploads = []\<rparr>"
  using upload_frame_checks [where ev = quiet_env
      and req = "multipart_request ''b1'' [(''frameNumber'', JStr ''5'')] [82, 73, 70, 70]"
      and w = "\<lparr>store = [[(''id'', JStr ''b1'')]], uploads = []\<rparr>"
      and buf = "[82, 73, 70, 70]" and b = "[(''id'', JStr ''b1'')]"
      and fn = "JStr ''5''" and s = "''5''"
      and url = "''https://cdn.example/asset''"]
    upload_frame_checks [where ev = quiet_env
      and req = "json_request ''b1'' [] [(''frameNumber'', JStr ''5'')]"
      and w = "\<lparr>store = [[(''id'', JStr ''b1'')]], uploads = []\<rparr>"]
    upload_frame_checks [where ev = quiet_env
      and req = "multipart_request ''b1'' [(''frameNumber'', JObj [(''a'', JStr ''1'')])]
                   [82, 73, 70, 70]"
      and w = "\<lparr>store = [[(''id'', JStr ''b1'')]], uploads = []\<rparr>"
      and buf = "[82, 73, 70, 70]" and b = "[(''id'', JStr ''b1'')]"
      and ps = "[(''a'', JStr ''1'')]"]
  by (simp add: quiet_env_def multipart_request_def json_request_def cloud_resolves_def
      fault_at_def find_one_def matches_id_def text_or_safe_integer_def)

section \<open>A rejected model upload\<close>

text \<open>
  C10. A model upload that has its file and its building, and whose upload the channel
  rejects, answers 500 with the fixed message and leaves the collection as it was,
  whatever the database would have done next: the Building is still found, unchanged,
  \<open>modelPath\<close> included.
\<close>

theorem upload_model_rejected_atomic:
  assumes "req_file req = Some buf" and "fault_at ev 0 = None"
    and "find_one (params_id req) (store w) = Some b"
    and "cloud ev (model_options (params_id req)) buf = Inl e"
  shows "fst (upload_model ev req w) = respond 500 (message_body ''Failed to upload model'')
       \<and> store (snd (upload_model ev req w)) = store w
       \<and> find_one (params_id req) (store (snd (upload_model ev req w))) = Some b"
  using assms by (simp add: upload_model_rejected [OF assms])

text \<open>The upload for \<open>b1\<close>, which already has a model, is rejected.\<close>

theorem upload_model_rejected_atomic_witness:
  "fst (upload_model (quiet_env\<lparr>cloud := cloud_rejects (JsError ''Upload failed'')\<rparr>)
          (multipart_request ''b1'' [] [103, 108, 84, 70])
          \<lparr>store = [[(''id'', JStr ''b1''), (''modelPath'', JStr ''https://cdn.example/v1/model'')]],
           uploads = []\<rparr>)
     = respond 500 (message_body ''Failed to upload model'')
   \<and> store (snd (upload_model (quiet_env\<lparr>cloud := cloud_rejects (JsError ''Upload failed'')\<rparr>)
          (multipart_request ''b1'' [] [103, 108, 84, 70])
          \<lparr>store = [[(''id'', JStr ''b1''), (''modelPath'', JStr ''https://cdn.example/v1/model'')]],
           uploads = []\<rparr>))
     = [[(''id'', JStr ''b1''), (''modelPath'', JStr ''https://cdn.example/v1/model'')]]"
  using upload_model_rejected_atomic [where
      ev = "quiet_env\<lparr>cloud := cloud_rejects (JsError ''Upload failed'')\<rparr>"
      and req = "multipart_request ''b1'' [] [103, 108, 84, 70]"
      and buf = "[103, 108, 84, 70]" and e = "JsError ''Upload failed''"
      and w = "\<lparr>store = [[(''id'', JStr ''b1''),
                          (''modelPath'', JStr ''https://cdn.example/v1/model'')]],
                uploads = []\<rparr>"
      and b = "[(''id'', JStr ''b1''), (''modelPath'', JStr ''https://cdn.example/v1/model'')]"]
  by (simp add: quiet_env_def multipart_request_def cloud_rejects_def fault_at_def
      find_one_def matches_id_def)

end
